theory Spec2Isabelle
  imports Main
begin

section \<open>Kubernetes service discovery: API configuration cache and fetch client\<close>

text \<open>
  A shallow embedding of \<^verbatim>\<open>lib/promscrape/discovery/kubernetes/api.go\<close>.
  Go strings and byte slices are byte sequences, hence values of type \<open>string\<close>
  (a \<open>char\<close> is one byte). A Go \<^verbatim>\<open>(T, error)\<close> result is a value of \<open>error + T\<close>,
  a pointer that may be nil is an \<open>option\<close>.
\<close>

subsection \<open>Errors\<close>

text \<open>
  \<^verbatim>\<open>fmt.Errorf(format, args...)\<close> is kept as the format string with its arguments, so
  that what an error carries can be read off without modelling the verbs: \<open>ArgQ\<close>
  is a string or byte slice printed with \<^verbatim>\<open>%q\<close>, \<open>ArgD\<close> an integer printed with
  \<^verbatim>\<open>%d\<close>, \<open>ArgS\<close> an error printed with \<^verbatim>\<open>%s\<close>. \<open>External\<close> is an
  error returned by a library.
\<close>

datatype error = Errorf string "fmtarg list" | External string
  and fmtarg = ArgQ string | ArgD int | ArgS error

subsection \<open>Data model\<close>

text \<open>
  Modelled from the spec: \<^verbatim>\<open>promauth.TLSConfig\<close> and \<^verbatim>\<open>promauth.Config\<close>
  are declared in \<^verbatim>\<open>lib/promauth\<close>, outside the sources. The spec lists the TLS
  settings of a configuration as client and CA settings; the code builds a
  \<^verbatim>\<open>TLSConfig\<close> literal that sets \<^verbatim>\<open>CAFile\<close> and leaves the other fields
  at their zero value. Of a \<^verbatim>\<open>Config\<close> the code reads the field
  \<^verbatim>\<open>Authorization\<close>; its remaining fields are the extension part of the record
  scheme.
\<close>

record promauth_TLSConfig =
  CAFile :: string
  CertFile :: string
  KeyFile :: string

record promauth_Config =
  Authorization :: string

record Namespaces =
  Names :: "string list"

text \<open>
  \<^verbatim>\<open>SDConfig\<close>: the fields \<^verbatim>\<open>api.go\<close> reads. Pointer fields are options of the
  value pointed to; \<open>'ba\<close> is \<^verbatim>\<open>promauth.BasicAuthConfig\<close>, \<open>'sel\<close> is
  \<^verbatim>\<open>Selector\<close>. Any further field lives in the extension part of the record scheme.
\<close>

record ('ba, 'sel) SDConfig =
  APIServer :: string
  BasicAuth :: "'ba option"
  BearerToken :: string
  BearerTokenFile :: string
  TLSConfig :: "promauth_TLSConfig option"
  Namespaces :: Namespaces
  Selectors :: "'sel list"

text \<open>\<^verbatim>\<open>fasthttp.HostClient\<close>: the fields the code sets; durations are nanoseconds.\<close>

record 'tls HostClient =
  Addr :: string
  Name :: string
  DialDualStack :: bool
  IsTLS :: bool
  TLSConfig :: "'tls option"
  ReadTimeout :: int
  WriteTimeout :: int
  MaxResponseBodySize :: int

record ('z, 'tls, 'sel) apiConfig =
  client :: "'tls HostClient"
  server :: string
  hostPort :: string
  authConfig :: "'z promauth_Config_scheme option"
  namespaces :: "string list"
  selectors :: "'sel list"

record ('z, 'tls) hcValue =
  hc :: "'tls HostClient"
  ac :: "'z promauth_Config_scheme option"
  apiServer :: string
  hostPort :: string

text \<open>What the accessors of a \<^verbatim>\<open>fasthttp.URI\<close> return after \<^verbatim>\<open>Update\<close>.\<close>

record URI =
  Scheme :: string
  Host :: string
  RequestURI :: string

record Request =
  req_RequestURI :: string
  req_Host :: string
  req_Header :: "string \<rightharpoonup> string"

record Response =
  StatusCode :: int
  resp_Header :: "string \<rightharpoonup> string"
  Body :: string

subsection \<open>The world outside \<^verbatim>\<open>api.go\<close>\<close>

text \<open>
  Everything the code calls but does not define is a field of the world in which a call
  runs: the process environment, \<^verbatim>\<open>promauth.NewConfig\<close> (which reads credential
  files), \<^verbatim>\<open>(*promauth.Config).NewTLSConfig\<close>, the URI parser of fasthttp,
  \<^verbatim>\<open>netutil.TCP6Enabled\<close>, \<^verbatim>\<open>joinSelectors\<close>, the network exchange
  \<^verbatim>\<open>(*fasthttp.HostClient).Do\<close> and \<^verbatim>\<open>fasthttp.AppendGunzipBytes\<close>.
\<close>

record ('ba, 'z, 'tls, 'sel) world =
  environ :: "string \<rightharpoonup> string"
  NewConfig :: "string \<Rightarrow> 'ba option \<Rightarrow> string \<Rightarrow> string \<Rightarrow> promauth_TLSConfig option
                 \<Rightarrow> error + 'z promauth_Config_scheme"
  NewTLSConfig :: "'z promauth_Config_scheme \<Rightarrow> 'tls"
  URI_Update :: "string \<Rightarrow> URI"
  TCP6Enabled :: bool
  joinSelectors :: "string \<Rightarrow> string list \<Rightarrow> 'sel list \<Rightarrow> string"
  Do :: "'tls HostClient \<Rightarrow> Request \<Rightarrow> error + Response"
  AppendGunzipBytes :: "string \<Rightarrow> string \<Rightarrow> error + string"

text \<open>\<^verbatim>\<open>os.Getenv\<close>: the value of the variable, empty when it is not set.\<close>

definition os_Getenv :: "('ba, 'z, 'tls, 'sel) world \<Rightarrow> string \<Rightarrow> string" where
  "os_Getenv w key = (case environ w key of None \<Rightarrow> [] | Some v \<Rightarrow> v)"

text \<open>\<^verbatim>\<open>strings.Contains\<close>: \<open>sub\<close> occurs in \<open>s\<close>.\<close>

primrec strings_Contains :: "string \<Rightarrow> string \<Rightarrow> bool" where
  "strings_Contains [] sub = (sub = [])"
| "strings_Contains (c # s) sub =
     (take (length sub) (c # s) = sub \<or> strings_Contains s sub)"

text \<open>
  \<^verbatim>\<open>net.JoinHostPort\<close>: \<^verbatim>\<open>host:port\<close>, and \<^verbatim>\<open>[host]:port\<close> when the host
  contains a colon, as a literal IPv6 address does.
\<close>

definition JoinHostPort :: "string \<Rightarrow> string \<Rightarrow> string" where
  "JoinHostPort host port =
     (if strings_Contains host '':'' then ''['' @ host @ '']:'' @ port
      else host @ '':'' @ port)"

definition Second :: int where
  "Second = 1000000000"

definition Minute :: int where
  "Minute = 60 * Second"

definition StatusOK :: int where
  "StatusOK = 200"

subsection \<open>\<^verbatim>\<open>newHostClient\<close>\<close>

definition newHostClient ::
  "('ba, 'z, 'tls, 'sel) world \<Rightarrow> string \<Rightarrow> 'z promauth_Config_scheme option
   \<Rightarrow> error + ('z, 'tls) hcValue" where
  "newHostClient w apiServer0 ac0 =
     (case
        (if length apiServer0 = 0 then
           (let host = os_Getenv w ''KUBERNETES_SERVICE_HOST'';
                port = os_Getenv w ''KUBERNETES_SERVICE_PORT''
            in if length host = 0 then
                 Inl (Errorf ''cannot find KUBERNETES_SERVICE_HOST env var; it must be defined when running in k8s; probably, `kubernetes_sd_config->api_server` is missing in Prometheus configs?'' [])
               else if length port = 0 then
                 Inl (Errorf ''cannot find KUBERNETES_SERVICE_PORT env var; it must be defined when running in k8s; KUBERNETES_SERVICE_HOST=%q'' [ArgQ host])
               else
                 (let tlsConfig = \<lparr>CAFile = ''/var/run/secrets/kubernetes.io/serviceaccount/ca.crt'',
                                   CertFile = [], KeyFile = []\<rparr>
                  in case NewConfig w ''/'' None [] ''/var/run/secrets/kubernetes.io/serviceaccount/token''
                            (Some tlsConfig) of
                       Inl err \<Rightarrow>
                         Inl (Errorf ''cannot initialize service account auth: %s; probably, `kubernetes_sd_config->api_server` is missing in Prometheus configs?'' [ArgS err])
                     | Inr acNew \<Rightarrow>
                         Inr (''https://'' @ JoinHostPort host port, Some acNew)))
         else Inr (apiServer0, ac0)) of
        Inl e \<Rightarrow> Inl e
      | Inr (apiServer1, ac1) \<Rightarrow>
          (let u = URI_Update w apiServer1;
               hostPort0 = Host u;
               isTLS = (Scheme u = ''https'');
               tlsCfg = (case ac1 of
                           Some a \<Rightarrow> if isTLS then Some (NewTLSConfig w a) else None
                         | None \<Rightarrow> None);
               hostPort1 = (if \<not> strings_Contains hostPort0 '':'' then
                              JoinHostPort hostPort0 (if isTLS then ''443'' else ''80'')
                            else hostPort0);
               hc1 = \<lparr>Addr = hostPort1,
                      Name = ''vm_promscrape/discovery'',
                      DialDualStack = TCP6Enabled w,
                      IsTLS = isTLS,
                      HostClient.TLSConfig = tlsCfg,
                      ReadTimeout = Minute,
                      WriteTimeout = 10 * Second,
                      MaxResponseBodySize = 300 * 1024 * 1024\<rparr>
           in Inr \<lparr>hc = hc1, ac = ac1, apiServer = apiServer1, hcValue.hostPort = hostPort1\<rparr>))"

subsection \<open>\<^verbatim>\<open>newAPIConfig\<close>\<close>

definition newAPIConfig ::
  "('ba, 'z, 'tls, 'sel) world \<Rightarrow> ('ba, 'sel, 'x) SDConfig_scheme \<Rightarrow> string
   \<Rightarrow> error + ('z, 'tls, 'sel) apiConfig" where
  "newAPIConfig w sdc baseDir =
     (case NewConfig w baseDir (BasicAuth sdc) (BearerToken sdc) (BearerTokenFile sdc)
             (SDConfig.TLSConfig sdc) of
        Inl err \<Rightarrow> Inl (Errorf ''cannot parse auth config: %s'' [ArgS err])
      | Inr ac1 \<Rightarrow>
          (case newHostClient w (APIServer sdc) (Some ac1) of
             Inl err \<Rightarrow>
               Inl (Errorf ''cannot create HTTP client for %q: %s'' [ArgQ (APIServer sdc), ArgS err])
           | Inr hcv \<Rightarrow>
               Inr \<lparr>client = hc hcv,
                    server = apiServer hcv,
                    apiConfig.hostPort = hcValue.hostPort hcv,
                    authConfig = ac hcv,
                    namespaces = Names (Namespaces sdc),
                    selectors = Selectors sdc\<rparr>))"

subsection \<open>\<^verbatim>\<open>getAPIResponse\<close>\<close>

text \<open>\<^verbatim>\<open>resp.Header.Peek\<close>: the value of the header, empty when it is absent.\<close>

definition Peek :: "Response \<Rightarrow> string \<Rightarrow> string" where
  "Peek resp key = (case resp_Header resp key of None \<Rightarrow> [] | Some v \<Rightarrow> v)"

definition getAPIResponse ::
  "('ba, 'z, 'tls, 'sel) world \<Rightarrow> ('z, 'tls, 'sel) apiConfig \<Rightarrow> string \<Rightarrow> string
   \<Rightarrow> error + string" where
  "getAPIResponse w cfg role path0 =
     (let query = joinSelectors w role (namespaces cfg) (selectors cfg);
          path1 = (if length query > 0 then path0 @ ''?'' @ query else path0);
          requestURL = server cfg @ path1;
          u = URI_Update w requestURL;
          req0 = \<lparr>req_RequestURI = RequestURI u,
                  req_Host = apiConfig.hostPort cfg,
                  req_Header = [''Accept-Encoding'' \<mapsto> ''gzip'']\<rparr>;
          req1 = (case authConfig cfg of
                    Some a \<Rightarrow>
                      if Authorization a \<noteq> [] then
                        req0\<lparr>req_Header := (req_Header req0)(''Authorization'' \<mapsto> Authorization a)\<rparr>
                      else req0
                  | None \<Rightarrow> req0)
      in case Do w (client cfg) req1 of
           Inl err \<Rightarrow> Inl (Errorf ''cannot fetch %q: %s'' [ArgQ requestURL, ArgS err])
         | Inr resp \<Rightarrow>
             (case
                (if Peek resp ''Content-Encoding'' = ''gzip'' then
                   (case AppendGunzipBytes w [] (Body resp) of
                      Inl err \<Rightarrow>
                        Inl (Errorf ''cannot ungzip response from %q: %s'' [ArgQ requestURL, ArgS err])
                    | Inr dst \<Rightarrow> Inr dst)
                 else Inr ([] @ Body resp)) of
                Inl e \<Rightarrow> Inl e
              | Inr data \<Rightarrow>
                  (let statusCode = StatusCode resp
                   in if statusCode \<noteq> StatusOK then
                        Inl (Errorf ''unexpected status code returned from %q: %d; expecting %d; response body: %q''
                               [ArgQ requestURL, ArgD statusCode, ArgD StatusOK, ArgQ data])
                      else Inr data)))"

text \<open>
  The URL, and the request, that \<^verbatim>\<open>getAPIResponse\<close> builds before the exchange
  (its first lines), named so that theorems can speak about the exchange.
\<close>

definition requestURL_of ::
  "('ba, 'z, 'tls, 'sel) world \<Rightarrow> ('z, 'tls, 'sel) apiConfig \<Rightarrow> string \<Rightarrow> string \<Rightarrow> string" where
  "requestURL_of w cfg role path0 =
     (let query = joinSelectors w role (namespaces cfg) (selectors cfg)
      in server cfg @ (if length query > 0 then path0 @ ''?'' @ query else path0))"

definition request_of ::
  "('ba, 'z, 'tls, 'sel) world \<Rightarrow> ('z, 'tls, 'sel) apiConfig \<Rightarrow> string \<Rightarrow> string \<Rightarrow> Request" where
  "request_of w cfg role path0 =
     (let req0 = \<lparr>req_RequestURI = RequestURI (URI_Update w (requestURL_of w cfg role path0)),
                  req_Host = apiConfig.hostPort cfg,
                  req_Header = [''Accept-Encoding'' \<mapsto> ''gzip'']\<rparr>
      in case authConfig cfg of
           Some a \<Rightarrow>
             if Authorization a \<noteq> [] then
               req0\<lparr>req_Header := (req_Header req0)(''Authorization'' \<mapsto> Authorization a)\<rparr>
             else req0
         | None \<Rightarrow> req0)"

subsection \<open>The configuration cache and \<^verbatim>\<open>getAPIConfig\<close>\<close>

text \<open>
  The state of the package: the map of the package-level \<^verbatim>\<open>configMap\<close>, the
  \<^verbatim>\<open>apiConfig\<close> objects allocated so far (a \<^verbatim>\<open>*apiConfig\<close> is an index into
  \<open>objects\<close>, so two pointers are the same instance iff they are the same index), and
  a ghost counter \<open>built\<close> of the runs of the construction callback per identity.
\<close>

record ('k, 'c) cache =
  m :: "'k \<rightharpoonup> nat"
  objects :: "'c list"
  built :: "'k \<Rightarrow> nat"

text \<open>
  Modelled from the spec: \<^verbatim>\<open>discoveryutils.ConfigMap\<close> and its method
  \<^verbatim>\<open>Get\<close> are not among the sources. Following section 4.1: the identity key is
  derived from the fields of the value the key points to (\<open>mem key\<close> is the value at
  pointer \<open>key\<close>); an existing entry is returned without running the callback;
  otherwise the callback runs once, a success is stored permanently and a failure
  leaves no entry, so that a later call re-attempts construction. Nothing is evicted.
\<close>

definition ConfigMap_Get ::
  "(nat \<Rightarrow> 'k) \<Rightarrow> nat \<Rightarrow> ('c list \<Rightarrow> (error + nat) \<times> 'c list) \<Rightarrow> ('k, 'c) cache
   \<Rightarrow> (error + nat) \<times> ('k, 'c) cache" where
  "ConfigMap_Get mem key newConfig cm =
     (let k = mem key
      in case m cm k of
           Some v \<Rightarrow> (Inr v, cm)
         | None \<Rightarrow>
             (let cm1 = cm\<lparr>built := (built cm)(k := built cm k + 1)\<rparr>
              in case newConfig (objects cm1) of
                   (Inl err, objs) \<Rightarrow> (Inl err, cm1\<lparr>objects := objs\<rparr>)
                 | (Inr v, objs) \<Rightarrow> (Inr v, cm1\<lparr>objects := objs, m := (m cm1)(k \<mapsto> v)\<rparr>)))"

text \<open>
  The callback of \<^verbatim>\<open>getAPIConfig\<close>: \<^verbatim>\<open>newAPIConfig\<close> returns the address of a
  fresh \<^verbatim>\<open>apiConfig\<close>, here the next index of \<open>objects\<close>.
\<close>

definition allocate :: "error + 'c \<Rightarrow> 'c list \<Rightarrow> (error + nat) \<times> 'c list" where
  "allocate r objs =
     (case r of Inl err \<Rightarrow> (Inl err, objs) | Inr c \<Rightarrow> (Inr (length objs), objs @ [c]))"

definition getAPIConfig ::
  "('ba, 'z, 'tls, 'sel) world \<Rightarrow> (nat \<Rightarrow> ('ba, 'sel, 'x) SDConfig_scheme) \<Rightarrow> nat \<Rightarrow> string
   \<Rightarrow> (('ba, 'sel, 'x) SDConfig_scheme, ('z, 'tls, 'sel) apiConfig) cache
   \<Rightarrow> (error + nat) \<times> (('ba, 'sel, 'x) SDConfig_scheme, ('z, 'tls, 'sel) apiConfig) cache" where
  "getAPIConfig w mem sdc baseDir cm =
     (case ConfigMap_Get mem sdc (allocate (newAPIConfig w (mem sdc) baseDir)) cm of
        (Inl err, cm1) \<Rightarrow> (Inl err, cm1)
      | (Inr v, cm1) \<Rightarrow> (Inr v, cm1))"

text \<open>
  A call of \<^verbatim>\<open>getAPIConfig\<close> with the world and the memory it runs in, and a run
  of calls one after the other on the shared cache.
\<close>

record ('ba, 'z, 'tls, 'sel, 'x) call =
  call_world :: "('ba, 'z, 'tls, 'sel) world"
  call_mem :: "nat \<Rightarrow> ('ba, 'sel, 'x) SDConfig_scheme"
  call_sdc :: nat
  call_baseDir :: string

fun run ::
  "('ba, 'z, 'tls, 'sel, 'x) call list
   \<Rightarrow> (('ba, 'sel, 'x) SDConfig_scheme, ('z, 'tls, 'sel) apiConfig) cache
   \<Rightarrow> (error + nat) list \<times> (('ba, 'sel, 'x) SDConfig_scheme, ('z, 'tls, 'sel) apiConfig) cache" where
  "run [] cm = ([], cm)"
| "run (c # cs) cm =
     (case getAPIConfig (call_world c) (call_mem c) (call_sdc c) (call_baseDir c) cm of
        (r, cm1) \<Rightarrow> (case run cs cm1 of (rs, cm2) \<Rightarrow> (r # rs, cm2)))"

subsection \<open>Example worlds and inputs\<close>

text \<open>
  Concrete inputs on which the theorems below are instantiated. \<open>example_uri\<close> lists
  what the URI parser returns for the URLs of the examples; \<open>example_world\<close> is a
  world whose \<^verbatim>\<open>promauth.NewConfig\<close> always succeeds and records the token, the
  token file and the TLS settings it was given, whose network exchange has a fixed
  outcome and whose decompressor is a parameter. \<open>example_gunzip\<close> stands for a
  decompressor that inverts the compression \<open>\<lambda>s. CHR ''z'' # s\<close>.
\<close>

definition example_uri :: "string \<Rightarrow> URI" where
  "example_uri s =
     (if s = ''http://api.example.com'' then
        \<lparr>Scheme = ''http'', Host = ''api.example.com'', RequestURI = ''/''\<rparr>
      else if s = ''https://api.example.com'' then
        \<lparr>Scheme = ''https'', Host = ''api.example.com'', RequestURI = ''/''\<rparr>
      else if s = ''https://10.0.0.1:6443'' then
        \<lparr>Scheme = ''https'', Host = ''10.0.0.1:6443'', RequestURI = ''/''\<rparr>
      else if s = ''https://api.example.com/api/v1/pods'' then
        \<lparr>Scheme = ''https'', Host = ''api.example.com'', RequestURI = ''/api/v1/pods''\<rparr>
      else if s = ''https://[::1]'' then
        \<lparr>Scheme = ''https'', Host = ''[::1]'', RequestURI = ''/''\<rparr>
      else \<lparr>Scheme = ''http'', Host = [], RequestURI = ''/''\<rparr>)"

definition example_world ::
  "(string \<rightharpoonup> string) \<Rightarrow> (error + Response) \<Rightarrow> (string \<Rightarrow> error + string)
   \<Rightarrow> (unit, promauth_TLSConfig option, promauth_TLSConfig option, unit) world" where
  "example_world env exchange gunzip =
     \<lparr>environ = env,
      NewConfig = (\<lambda>baseDir ba tok tokFile tls.
                     Inr \<lparr>Authorization =
                            (if tok \<noteq> [] then ''Bearer '' @ tok
                             else if tokFile \<noteq> [] then ''Bearer <'' @ tokFile @ ''>''
                             else []),
                          \<dots> = tls\<rparr>),
      NewTLSConfig = (\<lambda>a. promauth_Config.more a),
      URI_Update = example_uri,
      TCP6Enabled = False,
      joinSelectors = (\<lambda>role ns sels. []),
      Do = (\<lambda>c req. exchange),
      AppendGunzipBytes = (\<lambda>dst src. case gunzip src of Inl e \<Rightarrow> Inl e | Inr d \<Rightarrow> Inr (dst @ d))\<rparr>"

definition pod_env :: "string \<rightharpoonup> string" where
  "pod_env = [''KUBERNETES_SERVICE_HOST'' \<mapsto> ''10.0.0.1'', ''KUBERNETES_SERVICE_PORT'' \<mapsto> ''6443'']"

definition no_network :: "error + Response" where
  "no_network = Inl (External ''dial tcp: connection refused'')"

definition gzip_response :: "int \<Rightarrow> string \<Rightarrow> Response" where
  "gzip_response code body =
     \<lparr>StatusCode = code, resp_Header = [''Content-Encoding'' \<mapsto> ''gzip''], Body = body\<rparr>"


definition no_gunzip :: "string \<Rightarrow> error + string" where
  "no_gunzip src = Inl (External ''gzip: invalid header'')"

definition example_gunzip :: "string \<Rightarrow> error + string" where
  "example_gunzip src = (case src of [] \<Rightarrow> Inl (External ''unexpected EOF'') | c # d \<Rightarrow> Inr d)"

definition example_cfg ::
  "(promauth_TLSConfig option, promauth_TLSConfig option, unit) apiConfig" where
  "example_cfg =
     \<lparr>client = \<lparr>Addr = ''api.example.com:443'', Name = ''vm_promscrape/discovery'',
                 DialDualStack = False, IsTLS = True, HostClient.TLSConfig = None,
                 ReadTimeout = Minute, WriteTimeout = 10 * Second,
                 MaxResponseBodySize = 300 * 1024 * 1024\<rparr>,
      server = ''https://api.example.com'',
      apiConfig.hostPort = ''api.example.com:443'', authConfig = None, namespaces = [],
      selectors = []\<rparr>"

definition example_sdc :: "(unit, unit) SDConfig" where
  "example_sdc =
     \<lparr>APIServer = [], BasicAuth = None, BearerToken = [], BearerTokenFile = [],
      SDConfig.TLSConfig = None, Namespaces = \<lparr>Names = [''default'']\<rparr>, Selectors = []\<rparr>"

definition example_mem :: "nat \<Rightarrow> (unit, unit) SDConfig" where
  "example_mem p =
     (if p = 0 \<or> p = 1 then example_sdc
      else example_sdc\<lparr>APIServer := ''https://api.example.com''\<rparr>)"

definition example_call ::
  "(string \<rightharpoonup> string) \<Rightarrow> nat
   \<Rightarrow> (unit, promauth_TLSConfig option, promauth_TLSConfig option, unit, unit) call" where
  "example_call env p =
     \<lparr>call_world = example_world env no_network no_gunzip, call_mem = example_mem,
      call_sdc = p, call_baseDir = ''/etc/vmagent''\<rparr>"

definition empty_cache ::
  "((unit, unit) SDConfig, (promauth_TLSConfig option, promauth_TLSConfig option, unit) apiConfig) cache" where
  "empty_cache = \<lparr>m = Map.empty, objects = [], built = (\<lambda>k. 0)\<rparr>"

definition example_apiConfig ::
  "(promauth_TLSConfig option, promauth_TLSConfig option, unit) apiConfig" where
  "example_apiConfig =
     \<lparr>client = \<lparr>Addr = ''10.0.0.1:6443'', Name = ''vm_promscrape/discovery'',
                 DialDualStack = False, IsTLS = True,
                 HostClient.TLSConfig =
                   Some (Some \<lparr>CAFile = ''/var/run/secrets/kubernetes.io/serviceaccount/ca.crt'',
                               CertFile = [], KeyFile = []\<rparr>),
                 ReadTimeout = 60000000000, WriteTimeout = 10000000000,
                 MaxResponseBodySize = 314572800\<rparr>,
      server = ''https://10.0.0.1:6443'',
      apiConfig.hostPort = ''10.0.0.1:6443'',
      authConfig =
        Some \<lparr>Authorization = ''Bearer </var/run/secrets/kubernetes.io/serviceaccount/token>'',
              \<dots> = Some \<lparr>CAFile = ''/var/run/secrets/kubernetes.io/serviceaccount/ca.crt'',
                          CertFile = [], KeyFile = []\<rparr>\<rparr>,
      namespaces = [''default''], selectors = []\<rparr>"


section \<open>Auxiliary facts\<close>

lemma strings_Contains_single: "strings_Contains s [c] = (c \<in> set s)"
  by (induction s) auto

lemma JoinHostPort_plain:
  "CHR '':'' \<notin> set host \<Longrightarrow> JoinHostPort host port = host @ '':'' @ port"
  by (simp add: JoinHostPort_def strings_Contains_single)

lemma getAPIResponse_exchange:
  "getAPIResponse w cfg role path0 =
     (case Do w (client cfg) (request_of w cfg role path0) of
        Inl err \<Rightarrow> Inl (Errorf ''cannot fetch %q: %s'' [ArgQ (requestURL_of w cfg role path0), ArgS err])
      | Inr resp \<Rightarrow>
          (if Peek resp ''Content-Encoding'' = ''gzip'' then
             (case AppendGunzipBytes w [] (Body resp) of
                Inl err \<Rightarrow>
                  Inl (Errorf ''cannot ungzip response from %q: %s''
                         [ArgQ (requestURL_of w cfg role path0), ArgS err])
              | Inr dst \<Rightarrow>
                  if StatusCode resp \<noteq> 200 then
                    Inl (Errorf ''unexpected status code returned from %q: %d; expecting %d; response body: %q''
                           [ArgQ (requestURL_of w cfg role path0), ArgD (StatusCode resp), ArgD 200, ArgQ dst])
                  else Inr dst)
           else if StatusCode resp \<noteq> 200 then
                  Inl (Errorf ''unexpected status code returned from %q: %d; expecting %d; response body: %q''
                         [ArgQ (requestURL_of w cfg role path0), ArgD (StatusCode resp), ArgD 200,
                          ArgQ (Body resp)])
                else Inr (Body resp)))"
  unfolding getAPIResponse_def request_of_def requestURL_of_def Let_def StatusOK_def
  by (simp split: sum.splits option.splits)

lemma newHostClient_explicit:
  "apiServer0 \<noteq> [] \<Longrightarrow>
   newHostClient w apiServer0 ac0 =
     Inr \<lparr>hc = \<lparr>Addr = (if \<not> strings_Contains (Host (URI_Update w apiServer0)) '':''
                         then JoinHostPort (Host (URI_Update w apiServer0))
                                (if Scheme (URI_Update w apiServer0) = ''https'' then ''443'' else ''80'')
                         else Host (URI_Update w apiServer0)),
                 Name = ''vm_promscrape/discovery'',
                 DialDualStack = TCP6Enabled w,
                 IsTLS = (Scheme (URI_Update w apiServer0) = ''https''),
                 HostClient.TLSConfig =
                   (case ac0 of
                      Some a \<Rightarrow> if Scheme (URI_Update w apiServer0) = ''https''
                                then Some (NewTLSConfig w a) else None
                    | None \<Rightarrow> None),
                 ReadTimeout = Minute, WriteTimeout = 10 * Second,
                 MaxResponseBodySize = 300 * 1024 * 1024\<rparr>,
          ac = ac0, apiServer = apiServer0,
          hcValue.hostPort = (if \<not> strings_Contains (Host (URI_Update w apiServer0)) '':''
                         then JoinHostPort (Host (URI_Update w apiServer0))
                                (if Scheme (URI_Update w apiServer0) = ''https'' then ''443'' else ''80'')
                         else Host (URI_Update w apiServer0))\<rparr>"
  by (simp add: newHostClient_def Let_def)

lemma newHostClient_bootstrap:
  "newHostClient w [] ac0 =
     (if os_Getenv w ''KUBERNETES_SERVICE_HOST'' = [] then
        Inl (Errorf ''cannot find KUBERNETES_SERVICE_HOST env var; it must be defined when running in k8s; probably, `kubernetes_sd_config->api_server` is missing in Prometheus configs?'' [])
      else if os_Getenv w ''KUBERNETES_SERVICE_PORT'' = [] then
        Inl (Errorf ''cannot find KUBERNETES_SERVICE_PORT env var; it must be defined when running in k8s; KUBERNETES_SERVICE_HOST=%q'' [ArgQ (os_Getenv w ''KUBERNETES_SERVICE_HOST'')])
      else case NewConfig w ''/'' None [] ''/var/run/secrets/kubernetes.io/serviceaccount/token''
                  (Some \<lparr>CAFile = ''/var/run/secrets/kubernetes.io/serviceaccount/ca.crt'',
                         CertFile = [], KeyFile = []\<rparr>) of
             Inl err \<Rightarrow> Inl (Errorf ''cannot initialize service account auth: %s; probably, `kubernetes_sd_config->api_server` is missing in Prometheus configs?'' [ArgS err])
           | Inr acNew \<Rightarrow>
               newHostClient w (''https://'' @ JoinHostPort (os_Getenv w ''KUBERNETES_SERVICE_HOST'')
                                   (os_Getenv w ''KUBERNETES_SERVICE_PORT'')) (Some acNew))"
  by (simp add: newHostClient_def Let_def split: sum.splits)

lemma newHostClient_explicit_fields:
  assumes "apiServer0 \<noteq> []" and "newHostClient w apiServer0 ac0 = Inr v"
  shows "apiServer v = apiServer0 \<and> ac v = ac0 \<and>
     hcValue.hostPort v =
       (if \<not> strings_Contains (Host (URI_Update w apiServer0)) '':''
        then JoinHostPort (Host (URI_Update w apiServer0))
               (if Scheme (URI_Update w apiServer0) = ''https'' then ''443'' else ''80'')
        else Host (URI_Update w apiServer0)) \<and>
     hc v = \<lparr>Addr = hcValue.hostPort v, Name = ''vm_promscrape/discovery'',
             DialDualStack = TCP6Enabled w,
             IsTLS = (Scheme (URI_Update w apiServer0) = ''https''),
             HostClient.TLSConfig =
               (case ac0 of
                  Some a \<Rightarrow> if Scheme (URI_Update w apiServer0) = ''https''
                            then Some (NewTLSConfig w a) else None
                | None \<Rightarrow> None),
             ReadTimeout = Minute, WriteTimeout = 10 * Second,
             MaxResponseBodySize = 300 * 1024 * 1024\<rparr>"
  using assms(2) unfolding newHostClient_explicit [OF assms(1)] by auto

lemma newHostClient_fields:
  assumes "newHostClient w apiServer0 ac0 = Inr v"
  shows "apiServer v \<noteq> [] \<and>
     hcValue.hostPort v =
       (if \<not> strings_Contains (Host (URI_Update w (apiServer v))) '':''
        then JoinHostPort (Host (URI_Update w (apiServer v)))
               (if Scheme (URI_Update w (apiServer v)) = ''https'' then ''443'' else ''80'')
        else Host (URI_Update w (apiServer v))) \<and>
     hc v = \<lparr>Addr = hcValue.hostPort v, Name = ''vm_promscrape/discovery'',
             DialDualStack = TCP6Enabled w,
             IsTLS = (Scheme (URI_Update w (apiServer v)) = ''https''),
             HostClient.TLSConfig =
               (case ac v of
                  Some a \<Rightarrow> if Scheme (URI_Update w (apiServer v)) = ''https''
                            then Some (NewTLSConfig w a) else None
                | None \<Rightarrow> None),
             ReadTimeout = Minute, WriteTimeout = 10 * Second,
             MaxResponseBodySize = 300 * 1024 * 1024\<rparr>"
proof (cases "apiServer0 = []")
  case False
  from newHostClient_explicit_fields [OF False assms] False show ?thesis
    by (simp cong: option.case_cong)
next
  case True
  with assms obtain acNew where
    v: "newHostClient w (''https://'' @ JoinHostPort (os_Getenv w ''KUBERNETES_SERVICE_HOST'')
                                   (os_Getenv w ''KUBERNETES_SERVICE_PORT'')) (Some acNew) = Inr v"
    by (auto simp: newHostClient_bootstrap split: if_splits sum.splits)
  have ne: "''https://'' @ JoinHostPort (os_Getenv w ''KUBERNETES_SERVICE_HOST'')
                                   (os_Getenv w ''KUBERNETES_SERVICE_PORT'') \<noteq> []"
    by simp
  from newHostClient_explicit_fields [OF ne v] show ?thesis
    by (simp cong: option.case_cong)
qed

lemma newAPIConfig_in_cluster:
  "APIServer sdc = [] \<Longrightarrow>
   newAPIConfig w sdc baseDir =
     (case NewConfig w baseDir (BasicAuth sdc) (BearerToken sdc) (BearerTokenFile sdc)
             (SDConfig.TLSConfig sdc) of
        Inl err \<Rightarrow> Inl (Errorf ''cannot parse auth config: %s'' [ArgS err])
      | Inr a \<Rightarrow>
          (case newHostClient w [] None of
             Inl err \<Rightarrow> Inl (Errorf ''cannot create HTTP client for %q: %s'' [ArgQ [], ArgS err])
           | Inr hcv \<Rightarrow>
               Inr \<lparr>client = hc hcv, server = apiServer hcv,
                    apiConfig.hostPort = hcValue.hostPort hcv, authConfig = ac hcv,
                    namespaces = Names (Namespaces sdc), selectors = Selectors sdc\<rparr>))"
  by (simp add: newAPIConfig_def newHostClient_bootstrap [of w "Some _"]
      newHostClient_bootstrap [of w None] split: sum.splits)

lemma example_newAPIConfig:
  "APIServer sdc = [] \<Longrightarrow> Names (Namespaces sdc) = [''default''] \<Longrightarrow> Selectors sdc = [] \<Longrightarrow>
   newAPIConfig (example_world pod_env exchange gunzip) sdc baseDir = Inr example_apiConfig"
  by (simp add: newAPIConfig_def newHostClient_bootstrap newHostClient_explicit example_world_def
      pod_env_def os_Getenv_def JoinHostPort_def example_uri_def example_apiConfig_def
      Minute_def Second_def)

lemma getAPIConfig_hit:
  "m cm (mem sdc) = Some a \<Longrightarrow> getAPIConfig w mem sdc baseDir cm = (Inr a, cm)"
  by (simp add: getAPIConfig_def ConfigMap_Get_def)

lemma getAPIConfig_miss_ok:
  "m cm (mem sdc) = None \<Longrightarrow> newAPIConfig w (mem sdc) baseDir = Inr cfg \<Longrightarrow>
   getAPIConfig w mem sdc baseDir cm =
     (Inr (length (objects cm)),
      cm\<lparr>built := (built cm)(mem sdc := built cm (mem sdc) + 1),
         objects := objects cm @ [cfg],
         m := (m cm)(mem sdc \<mapsto> length (objects cm))\<rparr>)"
  by (simp add: getAPIConfig_def ConfigMap_Get_def allocate_def Let_def)

lemma getAPIConfig_miss_fail:
  "m cm (mem sdc) = None \<Longrightarrow> newAPIConfig w (mem sdc) baseDir = Inl err \<Longrightarrow>
   getAPIConfig w mem sdc baseDir cm =
     (Inl err, cm\<lparr>built := (built cm)(mem sdc := built cm (mem sdc) + 1)\<rparr>)"
  by (simp add: getAPIConfig_def ConfigMap_Get_def allocate_def Let_def)

lemma getAPIConfig_keeps_entry:
  assumes "m cm C = Some a" and "getAPIConfig w mem sdc baseDir cm = (r, cm1)"
  shows "m cm1 C = Some a \<and> built cm1 C = built cm C \<and> (mem sdc = C \<longrightarrow> r = Inr a \<and> cm1 = cm) \<and>
         (\<exists>ys. objects cm1 = objects cm @ ys)"
proof (cases "m cm (mem sdc)")
  case (Some b)
  with assms show ?thesis
    by (auto simp: getAPIConfig_hit)
next
  case None
  with assms(1) have ne: "mem sdc \<noteq> C" by auto
  show ?thesis
  proof (cases "newAPIConfig w (mem sdc) baseDir")
    case (Inl err)
    with None assms ne show ?thesis
      by (auto simp: getAPIConfig_miss_fail)
  next
    case (Inr cfg)
    with None assms ne show ?thesis
      by (auto simp: getAPIConfig_miss_ok)
  qed
qed

lemma run_keeps_entry:
  "m cm C = Some a \<Longrightarrow> run cs cm = (rs, cm') \<Longrightarrow>
     m cm' C = Some a \<and> built cm' C = built cm C \<and> length rs = length cs \<and>
     (\<forall>i<length cs. call_mem (cs ! i) (call_sdc (cs ! i)) = C \<longrightarrow> rs ! i = Inr a) \<and>
     (\<exists>ys. objects cm' = objects cm @ ys)"
proof (induction cs arbitrary: cm rs cm')
  case Nil
  then show ?case by simp
next
  case (Cons c cs)
  obtain r cm1 where s1: "getAPIConfig (call_world c) (call_mem c) (call_sdc c) (call_baseDir c) cm = (r, cm1)"
    by (cases "getAPIConfig (call_world c) (call_mem c) (call_sdc c) (call_baseDir c) cm")
  obtain rs1 cm2 where s2: "run cs cm1 = (rs1, cm2)"
    by (cases "run cs cm1")
  from Cons.prems(2) s1 s2 have rs: "rs = r # rs1" and cm': "cm' = cm2"
    by auto
  note k = getAPIConfig_keeps_entry [OF Cons.prems(1) s1]
  from k have e1: "m cm1 C = Some a" by simp
  note ih = Cons.IH [OF e1 s2]
  have "\<forall>i<length (c # cs). call_mem ((c # cs) ! i) (call_sdc ((c # cs) ! i)) = C \<longrightarrow> rs ! i = Inr a"
  proof (intro allI impI)
    fix i
    assume "i < length (c # cs)" and "call_mem ((c # cs) ! i) (call_sdc ((c # cs) ! i)) = C"
    then show "rs ! i = Inr a"
      using k ih rs by (cases i) auto
  qed
  moreover from k ih obtain ys zs where "objects cm1 = objects cm @ ys" "objects cm2 = objects cm1 @ zs"
    by auto
  then have "\<exists>ys. objects cm2 = objects cm @ ys" by simp
  ultimately show ?case
    using k ih rs cm' by simp
qed

lemma run_same_identity:
  "m cm C = Some a \<Longrightarrow> \<forall>c\<in>set cs. call_mem c (call_sdc c) = C \<Longrightarrow>
     run cs cm = (replicate (length cs) (Inr a), cm)"
  by (induction cs) (auto simp: getAPIConfig_hit)


section \<open>Properties\<close>

text \<open>
  Claim C1. Two \<^verbatim>\<open>SDConfig\<close> values that are equal field by field are one cache
  identity. Take a run of calls whose first call presents the value \<open>C\<close>, not yet in
  the cache, and builds its context. Then every call of the run that presents a value
  equal to \<open>C\<close>, through whatever pointer, in whatever world and interleaved with
  calls for other identities, returns the same \<^verbatim>\<open>*apiConfig\<close> (the same index into
  \<open>objects\<close>), and over the whole run the construction for \<open>C\<close> has run exactly
  once. When all calls present \<open>C\<close>, a single object is allocated. The cache is
  \<open>ConfigMap_Get\<close>, modelled from the spec.
\<close>

theorem getAPIConfig_dedup:
  assumes "m cm C = None"
      and "call_mem c (call_sdc c) = C"
      and "newAPIConfig (call_world c) C (call_baseDir c) = Inr cfg"
      and "run (c # cs) cm = (rs, cm')"
  shows "length rs = length (c # cs) \<and>
         (\<forall>i<length (c # cs).
            call_mem ((c # cs) ! i) (call_sdc ((c # cs) ! i)) = C \<longrightarrow>
              rs ! i = Inr (length (objects cm))) \<and>
         built cm' C = built cm C + 1 \<and>
         objects cm' ! length (objects cm) = cfg \<and>
         m cm' C = Some (length (objects cm)) \<and>
         ((\<forall>c'\<in>set cs. call_mem c' (call_sdc c') = C) \<longrightarrow>
            rs = replicate (Suc (length cs)) (Inr (length (objects cm))) \<and>
            objects cm' = objects cm @ [cfg])"
proof -
  let ?a = "length (objects cm)"
  let ?cm1 = "cm\<lparr>built := (built cm)(C := built cm C + 1), objects := objects cm @ [cfg],
                 m := (m cm)(C \<mapsto> ?a)\<rparr>"
  have s1: "getAPIConfig (call_world c) (call_mem c) (call_sdc c) (call_baseDir c) cm = (Inr ?a, ?cm1)"
    using getAPIConfig_miss_ok [of cm "call_mem c" "call_sdc c" "call_world c" "call_baseDir c" cfg] assms(1-3)
    by simp
  obtain rs1 where s2: "run cs ?cm1 = (rs1, cm')" and rs: "rs = Inr ?a # rs1"
    using assms(4) s1 by (auto split: prod.splits)
  have e: "m ?cm1 C = Some ?a" by simp
  note k = run_keeps_entry [OF e s2]
  have 1: "\<forall>i<length (c # cs).
            call_mem ((c # cs) ! i) (call_sdc ((c # cs) ! i)) = C \<longrightarrow> rs ! i = Inr ?a"
  proof (intro allI impI)
    fix i
    assume "i < length (c # cs)" and "call_mem ((c # cs) ! i) (call_sdc ((c # cs) ! i)) = C"
    then show "rs ! i = Inr ?a"
      using k rs by (cases i) auto
  qed
  from k obtain ys where "objects cm' = (objects cm @ [cfg]) @ ys" by auto
  then have 3: "objects cm' ! ?a = cfg" by simp
  have 5: "rs = replicate (Suc (length cs)) (Inr ?a) \<and> objects cm' = objects cm @ [cfg]"
    if "\<forall>c'\<in>set cs. call_mem c' (call_sdc c') = C"
    using run_same_identity [OF e that] s2 rs by auto
  from 1 3 5 k rs show ?thesis by simp
qed

theorem getAPIConfig_dedup_witness:
  "fst (run [example_call pod_env 0, example_call pod_env 1, example_call Map.empty 0,
             example_call pod_env 2, example_call Map.empty 1] empty_cache) ! 0 = Inr 0 \<and>
   fst (run [example_call pod_env 0, example_call pod_env 1, example_call Map.empty 0,
             example_call pod_env 2, example_call Map.empty 1] empty_cache) ! 1 = Inr 0 \<and>
   fst (run [example_call pod_env 0, example_call pod_env 1, example_call Map.empty 0,
             example_call pod_env 2, example_call Map.empty 1] empty_cache) ! 2 = Inr 0 \<and>
   fst (run [example_call pod_env 0, example_call pod_env 1, example_call Map.empty 0,
             example_call pod_env 2, example_call Map.empty 1] empty_cache) ! 4 = Inr 0 \<and>
   built (snd (run [example_call pod_env 0, example_call pod_env 1, example_call Map.empty 0,
                    example_call pod_env 2, example_call Map.empty 1] empty_cache)) example_sdc = 1"
proof -
  let ?cs = "[example_call pod_env 1, example_call Map.empty 0, example_call pod_env 2,
              example_call Map.empty 1]"
  let ?r = "run (example_call pod_env 0 # ?cs) empty_cache"
  have 1: "m empty_cache example_sdc = None"
    by (simp add: empty_cache_def)
  have 2: "call_mem (example_call pod_env 0) (call_sdc (example_call pod_env 0)) = example_sdc"
    by (simp add: example_call_def example_mem_def)
  have 3: "newAPIConfig (call_world (example_call pod_env 0)) example_sdc
             (call_baseDir (example_call pod_env 0)) = Inr example_apiConfig"
    by (simp add: example_call_def example_newAPIConfig example_sdc_def)
  have 4: "?r = (fst ?r, snd ?r)"
    by simp
  note t = getAPIConfig_dedup [OF 1 2 3 4]
  from t have b: "built (snd ?r) example_sdc = 1"
    by (simp add: empty_cache_def del: run.simps)
  from t have i: "\<And>i. i < 5 \<Longrightarrow>
      call_mem ((example_call pod_env 0 # ?cs) ! i) (call_sdc ((example_call pod_env 0 # ?cs) ! i)) = example_sdc
      \<Longrightarrow> fst ?r ! i = Inr 0"
    by (simp add: empty_cache_def del: run.simps)
  have "fst ?r ! 0 = Inr 0" "fst ?r ! 1 = Inr 0" "fst ?r ! 2 = Inr 0" "fst ?r ! 4 = Inr 0"
    using i [of 0] i [of 1] i [of 2] i [of 4]
    by (simp_all add: example_call_def example_mem_def del: run.simps)
  with b show ?thesis
    by (simp del: run.simps)
qed

text \<open>
  Claim C2. A failure of \<^verbatim>\<open>getAPIConfig\<close> is the failure of the construction it
  ran and leaves no entry behind: the map and the objects are as before. A later call
  with the same identity runs the construction again, and when that construction
  succeeds (the missing precondition now being satisfied in the world \<open>w'\<close>) the call
  returns the fresh context, which is then stored. The cache is \<open>ConfigMap_Get\<close>,
  modelled from the spec.
\<close>

theorem getAPIConfig_failure_not_cached:
  assumes "getAPIConfig w mem sdc baseDir cm = (Inl err, cm1)"
      and "mem' sdc' = mem sdc"
      and "newAPIConfig w' (mem' sdc') baseDir' = Inr cfg"
  shows "newAPIConfig w (mem sdc) baseDir = Inl err \<and>
         m cm1 (mem sdc) = None \<and> m cm1 = m cm \<and> objects cm1 = objects cm \<and>
         built cm1 (mem sdc) = built cm (mem sdc) + 1 \<and>
         (\<exists>cm2. getAPIConfig w' mem' sdc' baseDir' cm1 = (Inr (length (objects cm1)), cm2) \<and>
                objects cm2 = objects cm1 @ [cfg] \<and>
                m cm2 (mem sdc) = Some (length (objects cm1)) \<and>
                built cm2 (mem sdc) = built cm1 (mem sdc) + 1)"
proof -
  have none: "m cm (mem sdc) = None"
  proof (cases "m cm (mem sdc)")
    case (Some a)
    with assms(1) show ?thesis by (simp add: getAPIConfig_hit)
  qed simp
  have fail: "newAPIConfig w (mem sdc) baseDir = Inl err"
    and cm1: "cm1 = cm\<lparr>built := (built cm)(mem sdc := built cm (mem sdc) + 1)\<rparr>"
    using assms(1) none
    by (cases "newAPIConfig w (mem sdc) baseDir";
        simp add: getAPIConfig_miss_ok getAPIConfig_miss_fail)+
  have none1: "m cm1 (mem' sdc') = None"
    using none cm1 assms(2) by simp
  from getAPIConfig_miss_ok [of cm1 mem' sdc' w' baseDir' cfg] none1 assms(3) fail none cm1 assms(2)
  show ?thesis
    by simp
qed

theorem getAPIConfig_failure_not_cached_witness:
  "fst (getAPIConfig (example_world Map.empty no_network no_gunzip) example_mem 0 ''/etc/vmagent''
          empty_cache)
     = Inl (Errorf ''cannot create HTTP client for %q: %s''
              [ArgQ [], ArgS (Errorf ''cannot find KUBERNETES_SERVICE_HOST env var; it must be defined when running in k8s; probably, `kubernetes_sd_config->api_server` is missing in Prometheus configs?'' [])]) \<and>
   fst (getAPIConfig (example_world pod_env no_network no_gunzip) example_mem 1 ''/etc/vmagent''
          (snd (getAPIConfig (example_world Map.empty no_network no_gunzip) example_mem 0
                  ''/etc/vmagent'' empty_cache)))
     = Inr 0"
proof -
  let ?e = "Errorf ''cannot create HTTP client for %q: %s''
              [ArgQ [], ArgS (Errorf ''cannot find KUBERNETES_SERVICE_HOST env var; it must be defined when running in k8s; probably, `kubernetes_sd_config->api_server` is missing in Prometheus configs?'' [])]"
  let ?s = "getAPIConfig (example_world Map.empty no_network no_gunzip) example_mem 0 ''/etc/vmagent''
              empty_cache"
  have f: "newAPIConfig (example_world Map.empty no_network no_gunzip) (example_mem 0) ''/etc/vmagent''
             = Inl ?e"
    by (simp add: newAPIConfig_def newHostClient_bootstrap example_world_def os_Getenv_def
        example_mem_def example_sdc_def)
  have 1: "?s = (Inl ?e, snd ?s)"
    using getAPIConfig_miss_fail [of empty_cache example_mem 0
        "example_world Map.empty no_network no_gunzip" "''/etc/vmagent''" ?e] f
    by (simp add: empty_cache_def)
  have 2: "example_mem 1 = example_mem 0"
    by (simp add: example_mem_def)
  have 3: "newAPIConfig (example_world pod_env no_network no_gunzip) (example_mem 1) ''/etc/vmagent''
             = Inr example_apiConfig"
    by (simp add: example_newAPIConfig example_mem_def example_sdc_def)
  note t = getAPIConfig_failure_not_cached
         [where mem = example_mem and sdc = 0 and mem' = example_mem and sdc' = 1, OF 1 2 3]
  from t obtain cm2 where
    g: "getAPIConfig (example_world pod_env no_network no_gunzip) example_mem 1 ''/etc/vmagent'' (snd ?s)
          = (Inr (length (objects (snd ?s))), cm2)"
    by blast
  from t have "objects (snd ?s) = objects empty_cache"
    by blast
  then have "length (objects (snd ?s)) = 0"
    by (simp add: empty_cache_def)
  with g have "fst (getAPIConfig (example_world pod_env no_network no_gunzip) example_mem 1
                      ''/etc/vmagent'' (snd ?s)) = Inr 0"
    by simp
  moreover from 1 have "fst ?s = Inl ?e"
    by (metis fst_conv)
  ultimately show ?thesis
    by blast
qed



text \<open>
  Claim C4, as amended. \<^verbatim>\<open>getAPIResponse\<close> never returns data unless the exchange
  produced a response with status 200. For every response whose body decodes (no
  \<^verbatim>\<open>Content-Encoding: gzip\<close>, or a body that gunzips), the call returns the decoded
  data iff the status is 200, and for any other status it returns the error carrying
  the request URL, that status code, the expected code 200 and the decoded body. A
  response marked gzip whose body does not gunzip fails with the decompression error
  whatever its status, which is why the claim as stated does not hold.
\<close>

theorem getAPIResponse_status:
  "(\<forall>d. getAPIResponse w cfg role path0 = Inr d \<longrightarrow>
      (\<exists>resp. Do w (client cfg) (request_of w cfg role path0) = Inr resp \<and> StatusCode resp = 200)) \<and>
   (Do w (client cfg) (request_of w cfg role path0) = Inr resp \<and>
    (if Peek resp ''Content-Encoding'' = ''gzip''
     then AppendGunzipBytes w [] (Body resp) = Inr data else data = Body resp) \<longrightarrow>
      ((\<exists>d. getAPIResponse w cfg role path0 = Inr d) \<longleftrightarrow> StatusCode resp = 200) \<and>
      (StatusCode resp = 200 \<longrightarrow> getAPIResponse w cfg role path0 = Inr data) \<and>
      (StatusCode resp \<noteq> 200 \<longrightarrow>
         getAPIResponse w cfg role path0 =
           Inl (Errorf ''unexpected status code returned from %q: %d; expecting %d; response body: %q''
                  [ArgQ (requestURL_of w cfg role path0), ArgD (StatusCode resp), ArgD 200, ArgQ data])))"
proof (intro conjI allI impI)
  fix d
  assume "getAPIResponse w cfg role path0 = Inr d"
  then show "\<exists>resp. Do w (client cfg) (request_of w cfg role path0) = Inr resp \<and> StatusCode resp = 200"
    by (auto simp: getAPIResponse_exchange split: sum.splits if_splits)
next
  assume h: "Do w (client cfg) (request_of w cfg role path0) = Inr resp \<and>
    (if Peek resp ''Content-Encoding'' = ''gzip''
     then AppendGunzipBytes w [] (Body resp) = Inr data else data = Body resp)"
  then show "(\<exists>d. getAPIResponse w cfg role path0 = Inr d) \<longleftrightarrow> StatusCode resp = 200"
    by (auto simp: getAPIResponse_exchange split: if_splits)
  from h show "StatusCode resp = 200 \<Longrightarrow> getAPIResponse w cfg role path0 = Inr data"
    by (auto simp: getAPIResponse_exchange split: if_splits)
  from h show "StatusCode resp \<noteq> 200 \<Longrightarrow>
         getAPIResponse w cfg role path0 =
           Inl (Errorf ''unexpected status code returned from %q: %d; expecting %d; response body: %q''
                  [ArgQ (requestURL_of w cfg role path0), ArgD (StatusCode resp), ArgD 200, ArgQ data])"
    by (auto simp: getAPIResponse_exchange split: if_splits)
qed

theorem getAPIResponse_status_witness:
  "getAPIResponse (example_world Map.empty (Inr (gzip_response 404 ''zNotFound'')) example_gunzip) example_cfg ''pod'' ''/api/v1/pods''
     = Inl (Errorf ''unexpected status code returned from %q: %d; expecting %d; response body: %q''
              [ArgQ ''https://api.example.com/api/v1/pods'', ArgD 404, ArgD 200, ArgQ ''NotFound''])
   \<and> (\<nexists>d. getAPIResponse (example_world Map.empty (Inr (gzip_response 404 ''zNotFound'')) example_gunzip) example_cfg
              ''pod'' ''/api/v1/pods'' = Inr d)"
  using getAPIResponse_status [of "example_world Map.empty (Inr (gzip_response 404 ''zNotFound'')) example_gunzip" example_cfg
      "''pod''" "''/api/v1/pods''" "gzip_response 404 ''zNotFound''" "''NotFound''"]
  by (simp add: example_world_def gzip_response_def example_gunzip_def example_cfg_def
      requestURL_of_def Peek_def)

theorem getAPIResponse_status_counterexample:
  "StatusCode (gzip_response 200 ''not gzip'') = 200 \<and>
   getAPIResponse (example_world Map.empty (Inr (gzip_response 200 ''not gzip'')) no_gunzip)
     example_cfg ''pod'' ''/api/v1/pods''
     = Inl (Errorf ''cannot ungzip response from %q: %s''
              [ArgQ ''https://api.example.com/api/v1/pods'', ArgS (External ''gzip: invalid header'')])"
  by (simp add: getAPIResponse_exchange example_world_def gzip_response_def no_gunzip_def
      example_cfg_def requestURL_of_def request_of_def Peek_def)



text \<open>
  Claim C6, as amended. When the host component of the resolved server URL contains no
  colon, the host:port of the result is the host followed by \<^verbatim>\<open>:443\<close> when the
  scheme is https and by \<^verbatim>\<open>:80\<close> otherwise, and the client is bound to it. The
  code takes a colon anywhere in the host component for an explicit port
  (\<^verbatim>\<open>strings.Contains(hostPort, ":")\<close>), so the claim as stated, for every host
  component without an explicit port, does not hold: the host \<^verbatim>\<open>[::1]\<close> of
  \<^verbatim>\<open>https://[::1]\<close> has no port, contains a colon and gets none appended.
\<close>

theorem newHostClient_default_port:
  assumes "newHostClient w apiServer0 ac0 = Inr v"
      and "\<not> strings_Contains (Host (URI_Update w (apiServer v))) '':''"
  shows "hcValue.hostPort v =
           Host (URI_Update w (apiServer v)) @ '':'' @
             (if Scheme (URI_Update w (apiServer v)) = ''https'' then ''443'' else ''80'') \<and>
         Addr (hc v) = hcValue.hostPort v"
proof -
  from assms(2) have "CHR '':'' \<notin> set (Host (URI_Update w (apiServer v)))"
    by (simp add: strings_Contains_single)
  then have "JoinHostPort (Host (URI_Update w (apiServer v))) p
                = Host (URI_Update w (apiServer v)) @ '':'' @ p" for p
    by (rule JoinHostPort_plain)
  with newHostClient_fields [OF assms(1)] assms(2) show ?thesis
    by simp
qed

theorem newHostClient_default_port_witness:
  "(case newHostClient (example_world Map.empty no_network no_gunzip) ''http://api.example.com'' None of
      Inl e \<Rightarrow> False
    | Inr v \<Rightarrow> hcValue.hostPort v = ''api.example.com:80'' \<and> Addr (hc v) = ''api.example.com:80'') \<and>
   (case newHostClient (example_world Map.empty no_network no_gunzip) ''https://api.example.com'' None of
      Inl e \<Rightarrow> False
    | Inr v \<Rightarrow> hcValue.hostPort v = ''api.example.com:443'' \<and> Addr (hc v) = ''api.example.com:443'')"
proof -
  let ?w = "example_world Map.empty no_network no_gunzip"
  obtain v1 where v1: "newHostClient ?w ''http://api.example.com'' None = Inr v1"
    by (simp add: newHostClient_explicit)
  obtain v2 where v2: "newHostClient ?w ''https://api.example.com'' None = Inr v2"
    by (simp add: newHostClient_explicit)
  have a1: "apiServer v1 = ''http://api.example.com''" and a2: "apiServer v2 = ''https://api.example.com''"
    using v1 v2 by (auto simp: newHostClient_explicit)
  have "hcValue.hostPort v1 = ''api.example.com:80'' \<and> Addr (hc v1) = ''api.example.com:80''"
    using newHostClient_default_port [OF v1] a1
    by (simp add: example_world_def example_uri_def)
  moreover have "hcValue.hostPort v2 = ''api.example.com:443'' \<and> Addr (hc v2) = ''api.example.com:443''"
    using newHostClient_default_port [OF v2] a2
    by (simp add: example_world_def example_uri_def)
  ultimately show ?thesis
    by (simp add: v1 v2)
qed

theorem newHostClient_default_port_counterexample:
  "Scheme (URI_Update (example_world Map.empty no_network no_gunzip) ''https://[::1]'') = ''https'' \<and>
   Host (URI_Update (example_world Map.empty no_network no_gunzip) ''https://[::1]'') = ''[::1]'' \<and>
   newHostClient (example_world Map.empty no_network no_gunzip) ''https://[::1]'' None =
     Inr \<lparr>hc = \<lparr>Addr = ''[::1]'', Name = ''vm_promscrape/discovery'', DialDualStack = False,
                 IsTLS = True, HostClient.TLSConfig = None, ReadTimeout = 60000000000,
                 WriteTimeout = 10000000000, MaxResponseBodySize = 314572800\<rparr>,
          ac = None, apiServer = ''https://[::1]'', hcValue.hostPort = ''[::1]''\<rparr> \<and>
   ''[::1]'' \<noteq> ''[::1]:443''"
  by (simp add: newHostClient_explicit example_world_def example_uri_def Minute_def Second_def)

text \<open>
  Claim C7. The client of a successful \<^verbatim>\<open>newHostClient\<close> is bound to the resolved
  host:port, has a read timeout of one minute and a write timeout of ten seconds (in
  nanoseconds), a maximal response body size of 300 MiB, and dials dual-stack exactly
  when \<^verbatim>\<open>netutil.TCP6Enabled()\<close> holds.
\<close>

theorem newHostClient_limits:
  assumes "newHostClient w apiServer0 ac0 = Inr v"
  shows "Addr (hc v) = hcValue.hostPort v \<and>
         ReadTimeout (hc v) = Minute \<and> Minute = 60 * 1000000000 \<and>
         WriteTimeout (hc v) = 10 * Second \<and> Second = 1000000000 \<and>
         MaxResponseBodySize (hc v) = 300 * 2 ^ 20 \<and>
         DialDualStack (hc v) = TCP6Enabled w"
  using newHostClient_fields [OF assms] by (simp add: Minute_def Second_def)

theorem newHostClient_limits_witness:
  "case newHostClient (example_world pod_env no_network no_gunzip) [] None of
     Inl e \<Rightarrow> False
   | Inr v \<Rightarrow>
       Addr (hc v) = ''10.0.0.1:6443'' \<and> ReadTimeout (hc v) = 60000000000 \<and>
       WriteTimeout (hc v) = 10000000000 \<and> MaxResponseBodySize (hc v) = 314572800 \<and>
       \<not> DialDualStack (hc v)"
proof -
  let ?w = "example_world pod_env no_network no_gunzip"
  obtain v where v: "newHostClient ?w [] None = Inr v"
    by (simp add: newHostClient_bootstrap newHostClient_explicit example_world_def pod_env_def
        os_Getenv_def)
  have "hcValue.hostPort v = ''10.0.0.1:6443''"
    using v
    by (auto simp add: newHostClient_bootstrap newHostClient_explicit example_world_def pod_env_def
        os_Getenv_def JoinHostPort_def example_uri_def)
  with newHostClient_limits [OF v] have
    "Addr (hc v) = ''10.0.0.1:6443'' \<and> ReadTimeout (hc v) = 60000000000 \<and>
     WriteTimeout (hc v) = 10000000000 \<and> MaxResponseBodySize (hc v) = 314572800 \<and>
     \<not> DialDualStack (hc v)"
    by (simp add: Minute_def Second_def example_world_def)
  then show ?thesis
    by (simp add: v)
qed

text \<open>
  Claim C9. The body is decoded before the status is looked at. For a response with
  \<^verbatim>\<open>Content-Encoding: gzip\<close>: when the body does not gunzip, the call fails with
  the decompression error whatever the status code; when it gunzips and the status is
  not 200, the body carried by the status error is the decompressed one.
\<close>

theorem getAPIResponse_decodes_before_status:
  assumes "Do w (client cfg) (request_of w cfg role path0) = Inr resp"
      and "Peek resp ''Content-Encoding'' = ''gzip''"
  shows "(AppendGunzipBytes w [] (Body resp) = Inl err \<longrightarrow>
            getAPIResponse w cfg role path0 =
              Inl (Errorf ''cannot ungzip response from %q: %s''
                     [ArgQ (requestURL_of w cfg role path0), ArgS err])) \<and>
         (AppendGunzipBytes w [] (Body resp) = Inr d \<and> StatusCode resp \<noteq> 200 \<longrightarrow>
            getAPIResponse w cfg role path0 =
              Inl (Errorf ''unexpected status code returned from %q: %d; expecting %d; response body: %q''
                     [ArgQ (requestURL_of w cfg role path0), ArgD (StatusCode resp), ArgD 200, ArgQ d]))"
  using assms by (auto simp: getAPIResponse_exchange)

theorem getAPIResponse_decodes_before_status_witness:
  "getAPIResponse (example_world Map.empty (Inr (gzip_response 500 ''not gzip'')) no_gunzip)
     example_cfg ''pod'' ''/api/v1/pods''
     = Inl (Errorf ''cannot ungzip response from %q: %s''
              [ArgQ ''https://api.example.com/api/v1/pods'', ArgS (External ''gzip: invalid header'')]) \<and>
   getAPIResponse (example_world Map.empty (Inr (gzip_response 500 ''zboom'')) example_gunzip)
     example_cfg ''pod'' ''/api/v1/pods''
     = Inl (Errorf ''unexpected status code returned from %q: %d; expecting %d; response body: %q''
              [ArgQ ''https://api.example.com/api/v1/pods'', ArgD 500, ArgD 200, ArgQ ''boom''])"
  using getAPIResponse_decodes_before_status
      [of "example_world Map.empty (Inr (gzip_response 500 ''not gzip'')) no_gunzip"
      example_cfg "''pod''" "''/api/v1/pods''" "gzip_response 500 ''not gzip''"
      "External ''gzip: invalid header''"]
    getAPIResponse_decodes_before_status
      [of "example_world Map.empty (Inr (gzip_response 500 ''zboom'')) example_gunzip"
      example_cfg "''pod''" "''/api/v1/pods''" "gzip_response 500 ''zboom''" _ "''boom''"]
  by (simp add: example_world_def gzip_response_def example_gunzip_def no_gunzip_def Peek_def
      requestURL_of_def example_cfg_def)

text \<open>
  Claim C10. With an empty \<^verbatim>\<open>api_server\<close>, the authentication settings of the
  configuration are parsed (a parse error fails the call), and a successful result does
  not depend on them: its auth config is the one loaded from the fixed service account
  paths, and any other basic auth, bearer token, bearer-token file and TLS settings (and
  any other base directory), when they parse, give the same \<^verbatim>\<open>apiConfig\<close>.
\<close>

theorem newAPIConfig_in_cluster_discards_auth:
  assumes "APIServer sdc = []"
  shows "(\<forall>err. NewConfig w baseDir (BasicAuth sdc) (BearerToken sdc) (BearerTokenFile sdc)
                 (SDConfig.TLSConfig sdc) = Inl err \<longrightarrow>
            newAPIConfig w sdc baseDir = Inl (Errorf ''cannot parse auth config: %s'' [ArgS err])) \<and>
         (\<forall>cfg. newAPIConfig w sdc baseDir = Inr cfg \<longrightarrow>
            (\<exists>acNew. NewConfig w ''/'' None [] ''/var/run/secrets/kubernetes.io/serviceaccount/token''
                        (Some \<lparr>CAFile = ''/var/run/secrets/kubernetes.io/serviceaccount/ca.crt'',
                               CertFile = [], KeyFile = []\<rparr>) = Inr acNew \<and>
                      authConfig cfg = Some acNew) \<and>
            (\<forall>ba tok tokFile tls baseDir' cfg'.
               newAPIConfig w (sdc\<lparr>BasicAuth := ba, BearerToken := tok, BearerTokenFile := tokFile,
                                   SDConfig.TLSConfig := tls\<rparr>) baseDir' = Inr cfg' \<longrightarrow>
               cfg' = cfg))"
proof (intro conjI allI impI)
  fix err
  assume "NewConfig w baseDir (BasicAuth sdc) (BearerToken sdc) (BearerTokenFile sdc)
                 (SDConfig.TLSConfig sdc) = Inl err"
  then show "newAPIConfig w sdc baseDir = Inl (Errorf ''cannot parse auth config: %s'' [ArgS err])"
    by (simp add: newAPIConfig_def)
next
  fix cfg
  assume c: "newAPIConfig w sdc baseDir = Inr cfg"
  then obtain hcv where h: "newHostClient w [] None = Inr hcv"
    and cfg: "cfg = \<lparr>client = hc hcv, server = apiServer hcv,
                    apiConfig.hostPort = hcValue.hostPort hcv, authConfig = ac hcv,
                    namespaces = Names (Namespaces sdc), selectors = Selectors sdc\<rparr>"
    using assms by (auto simp: newAPIConfig_in_cluster split: sum.splits)
  from h obtain acNew where
    n: "NewConfig w ''/'' None [] ''/var/run/secrets/kubernetes.io/serviceaccount/token''
                        (Some \<lparr>CAFile = ''/var/run/secrets/kubernetes.io/serviceaccount/ca.crt'',
                               CertFile = [], KeyFile = []\<rparr>) = Inr acNew"
    and v: "newHostClient w (''https://'' @ JoinHostPort (os_Getenv w ''KUBERNETES_SERVICE_HOST'')
                                   (os_Getenv w ''KUBERNETES_SERVICE_PORT'')) (Some acNew) = Inr hcv"
    by (auto simp: newHostClient_bootstrap split: if_splits sum.splits)
  have "ac hcv = Some acNew"
    using newHostClient_explicit_fields [OF _ v] by simp
  with n cfg show "\<exists>acNew. NewConfig w ''/'' None [] ''/var/run/secrets/kubernetes.io/serviceaccount/token''
                        (Some \<lparr>CAFile = ''/var/run/secrets/kubernetes.io/serviceaccount/ca.crt'',
                               CertFile = [], KeyFile = []\<rparr>) = Inr acNew \<and>
                      authConfig cfg = Some acNew"
    by simp
  fix ba tok tokFile tls baseDir' cfg'
  assume "newAPIConfig w (sdc\<lparr>BasicAuth := ba, BearerToken := tok, BearerTokenFile := tokFile,
                                   SDConfig.TLSConfig := tls\<rparr>) baseDir' = Inr cfg'"
  with h cfg assms show "cfg' = cfg"
    by (auto simp: newAPIConfig_in_cluster split: sum.splits)
qed

theorem newAPIConfig_in_cluster_discards_auth_witness:
  "newAPIConfig (example_world pod_env no_network no_gunzip)
     (example_sdc\<lparr>BasicAuth := Some (), BearerToken := ''secret'', BearerTokenFile := [],
                   SDConfig.TLSConfig := Some \<lparr>CAFile = ''/etc/my-ca.pem'', CertFile = [], KeyFile = []\<rparr>\<rparr>)
     ''/'' = Inr example_apiConfig \<and>
   authConfig example_apiConfig =
     Some \<lparr>Authorization = ''Bearer </var/run/secrets/kubernetes.io/serviceaccount/token>'',
           \<dots> = Some \<lparr>CAFile = ''/var/run/secrets/kubernetes.io/serviceaccount/ca.crt'',
                       CertFile = [], KeyFile = []\<rparr>\<rparr>"
proof -
  let ?w = "example_world pod_env no_network no_gunzip"
  let ?sdc' = "example_sdc\<lparr>BasicAuth := Some (), BearerToken := ''secret'', BearerTokenFile := [],
                   SDConfig.TLSConfig := Some \<lparr>CAFile = ''/etc/my-ca.pem'', CertFile = [], KeyFile = []\<rparr>\<rparr>"
  have e: "APIServer example_sdc = []"
    by (simp add: example_sdc_def)
  have a: "newAPIConfig ?w example_sdc ''/etc/vmagent'' = Inr example_apiConfig"
    by (simp add: example_newAPIConfig example_sdc_def)
  obtain cfg' where b: "newAPIConfig ?w ?sdc' ''/'' = Inr cfg'"
    by (simp add: example_newAPIConfig example_sdc_def)
  note t = newAPIConfig_in_cluster_discards_auth [OF e, of ?w "''/etc/vmagent''"]
  from t a b have "cfg' = example_apiConfig"
    by blast
  with b show ?thesis
    by (simp add: example_apiConfig_def)
qed

end
